theory Spec2Isabelle
  imports Complex_Main "HOL-Library.Word" "HOL-Library.Sublist"
begin

section \<open>The judge runner of library-checker-judge\<close>

text \<open>
  A shallow embedding of \<^verbatim>\<open>judge/judge.go\<close> (the output stripper, \<^verbatim>\<open>SafeRun\<close>,
  \<^verbatim>\<open>AggregateResults\<close>, \<^verbatim>\<open>Judge.TestCase\<close>) and of the submission lock of the
  database package (\<^verbatim>\<open>TryLockSubmission\<close>).

  Go values are modelled as follows. A \<^verbatim>\<open>[]byte\<close> is a list of \<^typ>\<open>char\<close> (a
  \<^typ>\<open>char\<close> is one byte), a nil slice is the empty list. Go's \<^verbatim>\<open>int\<close> is
  \<^typ>\<open>int\<close>: the only arithmetic on it is \<^verbatim>\<open>N - 20 - len(data)\<close>, reached with
  \<^verbatim>\<open>N > 20\<close>, which stays inside 64 bits. A finite \<^verbatim>\<open>float64\<close> is the
  \<^typ>\<open>real\<close> it denotes: times are only compared and copied, never computed
  with, and \<^verbatim>\<open>json.Unmarshal\<close> produces no NaN. An \<^verbatim>\<open>error\<close> is a message; the
  nil error is \<^term>\<open>None\<close>. A panic is the outcome \<open>Panic\<close>.
\<close>

type_synonym byte = char

datatype error = Err string

datatype 'a outcome = Panic | Return 'a

subsection \<open>outputStripper\<close>

record outputStripper =
  N :: int
  data :: "byte list"
  overflow :: bool

text \<open>
  The result of one call of \<^verbatim>\<open>Write\<close>: the stripper after the call, the count \<^verbatim>\<open>n\<close>
  and the error. The slice expression \<^verbatim>\<open>b[:add]\<close> panics when \<^verbatim>\<open>add\<close> is negative
  (\<^verbatim>\<open>add\<close> never exceeds \<^verbatim>\<open>len(b)\<close>).
\<close>

definition Write :: "outputStripper \<Rightarrow> byte list \<Rightarrow> (outputStripper \<times> int \<times> error option) outcome" where
  "Write os b =
     (if N os \<le> 20 then Return (os, -1, Some (Err ''N is too small''))
      else
        let blen = int (length b);
            cap = N os - 20 - int (length (data os));
            add = (if cap < blen then cap else blen);
            ovf = (if cap < blen then True else overflow os)
        in if add < 0 then Panic
           else Return (os\<lparr>data := data os @ take (nat add) b, overflow := ovf\<rparr>, blen, None))"

definition Bytes :: "outputStripper \<Rightarrow> byte list" where
  "Bytes os = data os @ (if overflow os then '' ... stripped'' else [])"

text \<open>The composite literal \<^verbatim>\<open>&outputStripper{N: n}\<close>.\<close>

definition new_outputStripper :: "int \<Rightarrow> outputStripper" where
  "new_outputStripper n = \<lparr>N = n, data = [], overflow = False\<rparr>"

text \<open>
  A finite sequence of calls of \<^verbatim>\<open>Write\<close> on one stripper, in order. A call that
  returns an error leaves the stripper as it was; a panic ends the sequence
  (\<^term>\<open>None\<close>).
\<close>

fun Writes :: "outputStripper \<Rightarrow> byte list list \<Rightarrow> outputStripper option" where
  "Writes os [] = Some os"
| "Writes os (b # bs) =
     (case Write os b of
        Panic \<Rightarrow> None
      | Return (os', n, err) \<Rightarrow> Writes os' bs)"

subsection \<open>Result, CaseResult and AggregateResults\<close>

record Result =
  ReturnCode :: int
  Time :: real
  Memory :: int
  Tle :: bool
  Stderr :: "byte list"

text \<open>
  \<^verbatim>\<open>CaseResult\<close> embeds \<^verbatim>\<open>Result\<close>; the promoted field \<^verbatim>\<open>ans.Time\<close> is
  \<^verbatim>\<open>ans.Result.Time\<close>.
\<close>

record CaseResult =
  CaseName :: string
  Status :: string
  Result :: Result

text \<open>The zero values \<^verbatim>\<open>Result{}\<close> and \<^verbatim>\<open>CaseResult{}\<close>.\<close>

definition Result_zero :: Result where
  "Result_zero = \<lparr>ReturnCode = 0, Time = 0, Memory = 0, Tle = False, Stderr = []\<rparr>"

definition CaseResult_zero :: CaseResult where
  "CaseResult_zero = \<lparr>CaseName = [], Status = [], Result = Result_zero\<rparr>"

text \<open>The body of the loop of \<^verbatim>\<open>AggregateResults\<close>: three updates of \<^verbatim>\<open>ans\<close>, in order.\<close>

definition aggregate_step :: "CaseResult \<Rightarrow> CaseResult \<Rightarrow> CaseResult" where
  "aggregate_step ans res =
     (let ans1 = (if Status res \<noteq> ''AC'' then ans\<lparr>Status := Status res\<rparr> else ans);
          ans2 = (if Time (Result ans1) < Time (Result res)
                  then ans1\<lparr>Result := (Result ans1)\<lparr>Time := Time (Result res)\<rparr>\<rparr> else ans1);
          ans3 = (if Memory (Result ans2) < Memory (Result res)
                  then ans2\<lparr>Result := (Result ans2)\<lparr>Memory := Memory (Result res)\<rparr>\<rparr> else ans2)
      in ans3)"

fun aggregate_loop :: "CaseResult \<Rightarrow> CaseResult list \<Rightarrow> CaseResult" where
  "aggregate_loop ans [] = ans"
| "aggregate_loop ans (res # results) = aggregate_loop (aggregate_step ans res) results"

definition AggregateResults :: "CaseResult list \<Rightarrow> CaseResult" where
  "AggregateResults results =
     aggregate_loop
       \<lparr>CaseName = [], Status = ''AC'',
        Result = \<lparr>ReturnCode = -1, Time = -1, Memory = -1, Tle = False, Stderr = []\<rparr>\<rparr>
       results"

subsection \<open>SafeRun\<close>

text \<open>
  What \<^verbatim>\<open>cmd.Run()\<close> of \<^verbatim>\<open>os/exec\<close> leaves behind: it returns nil only when the
  process ran and exited with status 0; otherwise it returns an error, and
  \<^verbatim>\<open>cmd.ProcessState.ExitCode()\<close> is the exit status of the process (it is -1 when
  the process did not start or was ended by a signal, and can be 0 when only the
  copying of a stream failed).
\<close>

datatype run_outcome = Exit_zero | Run_error error int

fun run_err :: "run_outcome \<Rightarrow> error option" where
  "run_err Exit_zero = None"
| "run_err (Run_error e c) = Some e"

fun ExitCode :: "run_outcome \<Rightarrow> int" where
  "ExitCode Exit_zero = 0"
| "ExitCode (Run_error e c) = c"

text \<open>
  Everything outside the program that one call of \<^verbatim>\<open>SafeRun\<close> meets: the outcome
  of \<^verbatim>\<open>ioutil.TempFile\<close> and of \<^verbatim>\<open>exec.LookPath("executor")\<close>, the writes that the
  executor's standard error delivers to the stripper while it runs, the outcome
  of \<^verbatim>\<open>cmd.Run()\<close>, of \<^verbatim>\<open>ioutil.ReadFile\<close> on the result file and of
  \<^verbatim>\<open>json.Unmarshal\<close> on its content. The command, the time limit and the overlay
  flag only make up the executor's argument list.
\<close>

record executor_run =
  tempfile_err :: "error option"
  lookpath_err :: "error option"
  stderr_writes :: "byte list list"
  run :: run_outcome
  readfile_err :: "error option"
  unmarshal :: "error + Result"

definition SafeRun :: "executor_run \<Rightarrow> (Result \<times> error option) outcome" where
  "SafeRun x =
     (case tempfile_err x of Some e \<Rightarrow> Return (Result_zero, Some e) | None \<Rightarrow>
     (case lookpath_err x of Some e \<Rightarrow> Return (Result_zero, Some e) | None \<Rightarrow>
     (case Writes (new_outputStripper 2048) (stderr_writes x) of None \<Rightarrow> Panic | Some os \<Rightarrow>
      if run_err (run x) \<noteq> None \<and> ExitCode (run x) \<noteq> 124
      then Return (\<lparr>ReturnCode = -1, Time = -1, Memory = -1, Tle = False, Stderr = []\<rparr>,
                   run_err (run x))
      else
       (case readfile_err x of Some e \<Rightarrow> Return (Result_zero, Some e) | None \<Rightarrow>
       (case unmarshal x of Inl e \<Rightarrow> Return (Result_zero, Some e)
        | Inr result \<Rightarrow> Return (result\<lparr>Stderr := Bytes os\<rparr>, None))))))"

subsection \<open>Judge.TestCase\<close>

record Lang =
  Source :: string
  Compile :: string
  Exec :: string

record Judge =
  dir :: string
  tl_judge :: real
  lang :: Lang

text \<open>
  Everything outside the program that one call of \<^verbatim>\<open>TestCase\<close> meets, in the order
  of the source: the outcomes of creating, filling and rewinding \<^verbatim>\<open>input.in\<close>, of
  creating, filling and closing \<^verbatim>\<open>expect.out\<close>, of creating \<^verbatim>\<open>actual.out\<close>, the
  library function \<^verbatim>\<open>strings.Fields\<close>, and the two runs of the executor (the
  submission, then the checker).
\<close>

record testcase_env =
  create_input_err :: "error option"
  copy_input_err :: "error option"
  seek_input_err :: "error option"
  create_expect_err :: "error option"
  copy_expect_err :: "error option"
  close_expect_err :: "error option"
  create_actual_err :: "error option"
  Fields :: "string \<Rightarrow> string list"
  submission_run :: executor_run
  checker_run :: executor_run

text \<open>
  \<^verbatim>\<open>arg[0]\<close> panics when \<^verbatim>\<open>strings.Fields(j.lang.Exec)\<close> is empty. The value that
  \<^verbatim>\<open>actual.Close()\<close> returns is dropped by the source.
\<close>

definition TestCase :: "Judge \<Rightarrow> testcase_env \<Rightarrow> (CaseResult \<times> error option) outcome" where
  "TestCase j env =
     (case create_input_err env of Some e \<Rightarrow> Return (CaseResult_zero, Some e) | None \<Rightarrow>
     (case copy_input_err env of Some e \<Rightarrow> Return (CaseResult_zero, Some e) | None \<Rightarrow>
     (case seek_input_err env of Some e \<Rightarrow> Return (CaseResult_zero, Some e) | None \<Rightarrow>
     (case create_expect_err env of Some e \<Rightarrow> Return (CaseResult_zero, Some e) | None \<Rightarrow>
     (case copy_expect_err env of Some e \<Rightarrow> Return (CaseResult_zero, Some e) | None \<Rightarrow>
     (case close_expect_err env of Some e \<Rightarrow> Return (CaseResult_zero, Some e) | None \<Rightarrow>
     (case create_actual_err env of Some e \<Rightarrow> Return (CaseResult_zero, Some e) | None \<Rightarrow>
      if Fields env (Exec (lang j)) = [] then Panic
      else
       (case SafeRun (submission_run env) of Panic \<Rightarrow> Panic | Return (result, err) \<Rightarrow>
        if err \<noteq> None then Return (CaseResult_zero, err)
        else if Tle result then Return (\<lparr>CaseName = [], Status = ''TLE'', Result = result\<rparr>, None)
        else if ExitCode (run (submission_run env)) \<noteq> 0
          then Return (\<lparr>CaseName = [], Status = ''Broken'', Result = result\<rparr>, Some (Err ''executor return non 0, 124 code''))
        else if ReturnCode result \<noteq> 0 then Return (\<lparr>CaseName = [], Status = ''RE'', Result = result\<rparr>, None)
        else
         (case SafeRun (checker_run env) of Panic \<Rightarrow> Panic | Return (checkerResult, err) \<Rightarrow>
          if err \<noteq> None then Return (CaseResult_zero, err)
          else if Tle checkerResult then Return (\<lparr>CaseName = [], Status = ''ITLE'', Result = result\<rparr>, None)
          else if ExitCode (run (checker_run env)) \<noteq> 0
            then Return (\<lparr>CaseName = [], Status = ''Broken'', Result = result\<rparr>, Some (Err ''executor return non 0, 124 code''))
          else if ReturnCode checkerResult = 1 then Return (\<lparr>CaseName = [], Status = ''WA'', Result = result\<rparr>, None)
          else if ReturnCode checkerResult = 2 then Return (\<lparr>CaseName = [], Status = ''PE'', Result = result\<rparr>, None)
          else if ReturnCode checkerResult = 3 then Return (\<lparr>CaseName = [], Status = ''Fail'', Result = result\<rparr>, None)
          else if ReturnCode checkerResult \<noteq> 0 then Return (\<lparr>CaseName = [], Status = ''Unknown'', Result = result\<rparr>, None)
          else Return (\<lparr>CaseName = [], Status = ''AC'', Result = result\<rparr>, None))))))))))"

subsection \<open>The submission lock\<close>













subsection \<open>Concrete inputs\<close>

text \<open>
  The seven file operations that open \<^verbatim>\<open>TestCase\<close> all succeeded.
\<close>

definition files_ready :: "testcase_env \<Rightarrow> bool" where
  "files_ready env \<longleftrightarrow>
     create_input_err env = None \<and> copy_input_err env = None \<and> seek_input_err env = None \<and>
     create_expect_err env = None \<and> copy_expect_err env = None \<and> close_expect_err env = None \<and>
     create_actual_err env = None"

text \<open>
  Sample runs of the executor: it exits with status 0, or with the status \<open>c\<close>,
  after writing the result file \<open>r\<close> and nothing to standard error.
\<close>

definition executor_exit_zero :: "Result \<Rightarrow> executor_run" where
  "executor_exit_zero r =
     \<lparr>tempfile_err = None, lookpath_err = None, stderr_writes = [], run = Exit_zero,
      readfile_err = None, unmarshal = Inr r\<rparr>"

definition executor_exit :: "int \<Rightarrow> Result \<Rightarrow> executor_run" where
  "executor_exit c r =
     \<lparr>tempfile_err = None, lookpath_err = None, stderr_writes = [],
      run = Run_error (Err ''exit status'') c, readfile_err = None, unmarshal = Inr r\<rparr>"

definition report :: "int \<Rightarrow> bool \<Rightarrow> Result" where
  "report rc t = \<lparr>ReturnCode = rc, Time = 1 / 2, Memory = 4096, Tle = t, Stderr = []\<rparr>"

text \<open>
  A sample call of \<^verbatim>\<open>TestCase\<close>: every file operation succeeds, the exec command
  is a single word, and the two runs of the executor are \<open>s\<close> and \<open>c\<close>.
\<close>

definition testcase_runs :: "executor_run \<Rightarrow> executor_run \<Rightarrow> testcase_env" where
  "testcase_runs s c =
     \<lparr>create_input_err = None, copy_input_err = None, seek_input_err = None,
      create_expect_err = None, copy_expect_err = None, close_expect_err = None,
      create_actual_err = None, Fields = (\<lambda>w. [w]),
      submission_run = s, checker_run = c\<rparr>"

definition judge_cpp :: Judge where
  "judge_cpp =
     \<lparr>dir = ''/tmp/judge'', tl_judge = 2,
      lang = \<lparr>Source = ''main.cpp'', Compile = ''g++ main.cpp'', Exec = ''./a.out''\<rparr>\<rparr>"

definition case_a :: CaseResult where
  "case_a = \<lparr>CaseName = ''a'', Status = ''AC'',
             Result = \<lparr>ReturnCode = 0, Time = 1 / 2, Memory = 4096, Tle = False, Stderr = []\<rparr>\<rparr>"

definition case_b :: CaseResult where
  "case_b = \<lparr>CaseName = ''b'', Status = ''AC'',
             Result = \<lparr>ReturnCode = 0, Time = 3 / 2, Memory = 1024, Tle = False, Stderr = []\<rparr>\<rparr>"



section \<open>Properties\<close>

subsection \<open>outputStripper\<close>

lemma nat_sub_len: "nat (x - int k) = nat x - k"
  by arith

text \<open>
  One call of \<^verbatim>\<open>Write\<close> on a stripper that holds at most \<^verbatim>\<open>N - 20\<close> bytes: the
  data becomes the first \<^verbatim>\<open>N - 20\<close> bytes of what was held followed by the input.
\<close>

lemma Write_ok:
  assumes "20 < N os" and "int (length (data os)) \<le> N os - 20"
  shows "Write os b =
           Return (os\<lparr>data := take (nat (N os - 20)) (data os @ b),
                      overflow := (overflow os \<or> N os - 20 < int (length (data os)) + int (length b))\<rparr>,
                   int (length b), None)"
  using assms by (auto simp: Write_def Let_def nat_sub_len)

lemma Writes_inv:
  assumes "20 < n"
  shows "Writes \<lparr>N = n, data = take (nat (n - 20)) w, overflow = (n - 20 < int (length w))\<rparr> bs
       = Some \<lparr>N = n, data = take (nat (n - 20)) (w @ concat bs),
               overflow = (n - 20 < int (length (w @ concat bs)))\<rparr>"
proof (induction bs arbitrary: w)
  case Nil
  show ?case by simp
next
  case (Cons b bs)
  let ?s = "\<lparr>N = n, data = take (nat (n - 20)) w, overflow = (n - 20 < int (length w))\<rparr>"
  have "Write ?s b =
          Return (\<lparr>N = n, data = take (nat (n - 20)) (w @ b),
                   overflow = (n - 20 < int (length (w @ b)))\<rparr>, int (length b), None)"
    using assms by (subst Write_ok) (auto simp: min_def)
  then show ?case using Cons.IH [of "w @ b"] by simp
qed

lemma Writes_new:
  "20 < n \<Longrightarrow> Writes (new_outputStripper n) bs
     = Some \<lparr>N = n, data = take (nat (n - 20)) (concat bs),
             overflow = (n - 20 < int (length (concat bs)))\<rparr>"
  using Writes_inv [of n "[]" bs] by (simp add: new_outputStripper_def)

text \<open>
  C4, as the source has it. For every capacity \<open>n > 20\<close> and every finite sequence
  \<open>bs\<close> of writes to a fresh stripper, no write fails; the stripper retains the
  first \<open>n - 20\<close> bytes of the input; the buffer that \<^verbatim>\<open>Bytes\<close> returns has at most
  \<open>n\<close> bytes; and the sentinel is appended to the retained bytes if and only if
  at least one input byte was discarded (fewer bytes are retained than were
  written). So a buffer whose input was cut ends with the sentinel, and a buffer
  whose input was not cut is the input itself.
\<close>

theorem Bytes_bounded_sentinel:
  assumes "20 < n"
  shows "\<exists>os. Writes (new_outputStripper n) bs = Some os
     \<and> data os = take (nat (n - 20)) (concat bs)
     \<and> int (length (Bytes os)) \<le> n
     \<and> (Bytes os = data os @ '' ... stripped'' \<longleftrightarrow> length (data os) < length (concat bs))
     \<and> (length (data os) < length (concat bs) \<longrightarrow> suffix '' ... stripped'' (Bytes os))
     \<and> (\<not> length (data os) < length (concat bs) \<longrightarrow> Bytes os = concat bs)"
proof -
  let ?os = "\<lparr>N = n, data = take (nat (n - 20)) (concat bs),
              overflow = (n - 20 < int (length (concat bs)))\<rparr>"
  have w: "Writes (new_outputStripper n) bs = Some ?os"
    using assms by (rule Writes_new)
  have r: "data ?os = take (nat (n - 20)) (concat bs)"
    by simp
  have d: "length (data ?os) < length (concat bs) \<longleftrightarrow> overflow ?os"
    using assms by auto
  have len: "int (length (Bytes ?os)) \<le> n"
    using assms by (simp add: Bytes_def)
  have a: "Bytes ?os = data ?os @ '' ... stripped'' \<longleftrightarrow> overflow ?os"
    by (simp add: Bytes_def)
  have s: "overflow ?os \<longrightarrow> suffix '' ... stripped'' (Bytes ?os)"
    by (simp add: Bytes_def suffix_def)
  have e: "\<not> overflow ?os \<longrightarrow> Bytes ?os = concat bs"
    using assms by (simp add: Bytes_def)
  show ?thesis using w r d len a s e by blast
qed

text \<open>
  The theorem at capacity 30: three writes of 15 bytes in all leave the first ten
  and the sentinel; one write of five bytes is returned as it is.
\<close>

theorem Bytes_bounded_sentinel_witness:
  "(20::int) < 30
   \<and> Writes (new_outputStripper 30) [''hello '', ''world!'', ''bye'']
       = Some \<lparr>N = 30, data = ''hello worl'', overflow = True\<rparr>
   \<and> Bytes \<lparr>N = 30, data = ''hello worl'', overflow = True\<rparr> = ''hello worl ... stripped''
   \<and> length ''hello worl'' < length (concat [''hello '', ''world!'', ''bye''])
   \<and> suffix '' ... stripped'' ''hello worl ... stripped''
   \<and> Writes (new_outputStripper 30) [''hello''] = Some \<lparr>N = 30, data = ''hello'', overflow = False\<rparr>
   \<and> length ''hello'' = length (concat [''hello''])
   \<and> Bytes \<lparr>N = 30, data = ''hello'', overflow = False\<rparr> = ''hello''"
  using Bytes_bounded_sentinel [of 30 "[''hello '', ''world!'', ''bye'']"]
        Bytes_bounded_sentinel [of 30 "[''hello'']"]
  by (simp add: new_outputStripper_def Write_def Bytes_def suffix_def)

text \<open>
  C4 as it is stated fails from right to left: a stripper of capacity 40 that is
  written the 13 bytes of the sentinel's own text retains all of them, discards
  nothing, and returns a buffer that ends with the sentinel.
\<close>

theorem Bytes_sentinel_without_discard:
  "Writes (new_outputStripper 40) ['' ... stripped'']
       = Some \<lparr>N = 40, data = '' ... stripped'', overflow = False\<rparr>
   \<and> suffix '' ... stripped'' (Bytes \<lparr>N = 40, data = '' ... stripped'', overflow = False\<rparr>)
   \<and> length (data \<lparr>N = 40, data = '' ... stripped'', overflow = False\<rparr>)
       = length (concat ['' ... stripped''])"
  by (simp add: new_outputStripper_def Write_def Bytes_def)

text \<open>
  C10, as the source has it. On a stripper of capacity over 20, a write whose
  length is exactly the remaining capacity (\<^verbatim>\<open>N - 20\<close> less the bytes already
  retained) is retained in full and leaves the overflow flag as it was; the data
  then fills the whole retention buffer. So \<^verbatim>\<open>Bytes\<close> appends the sentinel after
  this write only if the flag had been set before it, and on a stripper whose
  flag is not set it returns exactly the retained bytes, with nothing appended.
\<close>

theorem Write_exact_fit:
  assumes "20 < N os" and "int (length b) = N os - 20 - int (length (data os))"
  shows "Write os b = Return (os\<lparr>data := data os @ b\<rparr>, int (length b), None)
     \<and> overflow (os\<lparr>data := data os @ b\<rparr>) = overflow os
     \<and> int (length (data (os\<lparr>data := data os @ b\<rparr>))) = N os - 20
     \<and> Bytes (os\<lparr>data := data os @ b\<rparr>)
         = data os @ b @ (if overflow os then '' ... stripped'' else [])
     \<and> (\<not> overflow os \<longrightarrow> Bytes (os\<lparr>data := data os @ b\<rparr>) = data os @ b)"
  using assms by (simp add: Write_def Bytes_def)

theorem Write_exact_fit_witness:
  "(20::int) < N \<lparr>N = 25, data = ''ab'', overflow = False\<rparr>
   \<and> int (length ''cde'') = N \<lparr>N = 25, data = ''ab'', overflow = False\<rparr> - 20
       - int (length (data \<lparr>N = 25, data = ''ab'', overflow = False\<rparr>))
   \<and> \<not> overflow \<lparr>N = 25, data = ''ab'', overflow = False\<rparr>
   \<and> Write \<lparr>N = 25, data = ''ab'', overflow = False\<rparr> ''cde''
       = Return (\<lparr>N = 25, data = ''abcde'', overflow = False\<rparr>, 3, None)
   \<and> Bytes \<lparr>N = 25, data = ''abcde'', overflow = False\<rparr> = ''abcde''"
  using Write_exact_fit [of "\<lparr>N = 25, data = ''ab'', overflow = False\<rparr>" "''cde''"]
  by (simp add: Bytes_def)

text \<open>
  C10 as it is stated fails when the bytes written are the sentinel's own text.
  A fresh stripper of capacity 33 has 13 bytes of remaining capacity; the write
  of the 13 bytes \<^verbatim>\<open> ... stripped\<close> has exactly that length, is retained in full
  and sets no flag, and the buffer that \<^verbatim>\<open>Bytes\<close> returns ends with the
  sentinel.
\<close>

theorem Write_exact_fit_sentinel_text:
  "(20::int) < N (new_outputStripper 33)
   \<and> int (length '' ... stripped'')
       = N (new_outputStripper 33) - 20 - int (length (data (new_outputStripper 33)))
   \<and> Write (new_outputStripper 33) '' ... stripped''
       = Return (\<lparr>N = 33, data = '' ... stripped'', overflow = False\<rparr>, 13, None)
   \<and> int (length (data \<lparr>N = 33, data = '' ... stripped'', overflow = False\<rparr>)) = 33 - 20
   \<and> suffix '' ... stripped'' (Bytes \<lparr>N = 33, data = '' ... stripped'', overflow = False\<rparr>)"
  by (simp add: new_outputStripper_def Write_def Bytes_def)

subsection \<open>AggregateResults\<close>

lemma aggregate_step_Time:
  "Time (Result (aggregate_step ans res)) = max (Time (Result ans)) (Time (Result res))"
  by (simp add: aggregate_step_def Let_def max_def)

lemma aggregate_step_Memory:
  "Memory (Result (aggregate_step ans res)) = max (Memory (Result ans)) (Memory (Result res))"
  by (simp add: aggregate_step_def Let_def max_def)

lemma aggregate_step_Status:
  "Status (aggregate_step ans res) = (if Status res \<noteq> ''AC'' then Status res else Status ans)"
  by (simp add: aggregate_step_def Let_def)

lemma aggregate_loop_Time:
  "Time (Result (aggregate_loop ans cs))
     = Max (insert (Time (Result ans)) ((\<lambda>c. Time (Result c)) ` set cs))"
proof (induction cs arbitrary: ans)
  case Nil
  show ?case by simp
next
  case (Cons c cs)
  have "Max (insert (max (Time (Result ans)) (Time (Result c))) ((\<lambda>c. Time (Result c)) ` set cs))
      = Max (insert (Time (Result ans)) (insert (Time (Result c)) ((\<lambda>c. Time (Result c)) ` set cs)))"
    by (cases "cs = []") (simp_all add: max.assoc)
  then show ?case by (simp add: Cons.IH aggregate_step_Time)
qed

lemma aggregate_loop_Memory:
  "Memory (Result (aggregate_loop ans cs))
     = Max (insert (Memory (Result ans)) ((\<lambda>c. Memory (Result c)) ` set cs))"
proof (induction cs arbitrary: ans)
  case Nil
  show ?case by simp
next
  case (Cons c cs)
  have "Max (insert (max (Memory (Result ans)) (Memory (Result c))) ((\<lambda>c. Memory (Result c)) ` set cs))
      = Max (insert (Memory (Result ans)) (insert (Memory (Result c)) ((\<lambda>c. Memory (Result c)) ` set cs)))"
    by (cases "cs = []") (simp_all add: max.assoc)
  then show ?case by (simp add: Cons.IH aggregate_step_Memory)
qed

lemma aggregate_loop_Status:
  "Status (aggregate_loop ans cs) =
     (if filter (\<lambda>c. Status c \<noteq> ''AC'') cs = [] then Status ans
      else Status (last (filter (\<lambda>c. Status c \<noteq> ''AC'') cs)))"
  by (induction cs arbitrary: ans) (simp_all add: aggregate_step_Status)

lemma Max_insert_floor:
  fixes S :: "'a::linorder set"
  assumes "finite S" and "x \<in> S" and "a \<le> x"
  shows "Max (insert a S) = Max S"
proof -
  have "S \<noteq> {}" using assms by auto
  then have "Max (insert a S) = max a (Max S)" using assms by simp
  moreover have "a \<le> Max S" using assms by (meson Max_ge order_trans)
  ultimately show ?thesis by (simp add: max_def)
qed

text \<open>
  C7, as the source has it. For every list \<open>cs\<close> of case results the \<^verbatim>\<open>Time\<close> of
  \<^verbatim>\<open>AggregateResults(cs)\<close> is the greatest of -1 and the times of \<open>cs\<close>, and
  likewise for \<^verbatim>\<open>Memory\<close>. So each is at least the value of every case; it equals
  the maximum over \<open>cs\<close> whenever some case has a value of at least -1; and for
  the empty list both are -1.
\<close>

theorem AggregateResults_Time_Memory:
  "Time (Result (AggregateResults cs)) = Max (insert (-1) ((\<lambda>c. Time (Result c)) ` set cs))
   \<and> Memory (Result (AggregateResults cs)) = Max (insert (-1) ((\<lambda>c. Memory (Result c)) ` set cs))
   \<and> (\<forall>c \<in> set cs. Time (Result c) \<le> Time (Result (AggregateResults cs))
                  \<and> Memory (Result c) \<le> Memory (Result (AggregateResults cs)))
   \<and> ((\<exists>c \<in> set cs. -1 \<le> Time (Result c)) \<longrightarrow>
        Time (Result (AggregateResults cs)) = Max ((\<lambda>c. Time (Result c)) ` set cs))
   \<and> ((\<exists>c \<in> set cs. -1 \<le> Memory (Result c)) \<longrightarrow>
        Memory (Result (AggregateResults cs)) = Max ((\<lambda>c. Memory (Result c)) ` set cs))
   \<and> (cs = [] \<longrightarrow>
        Time (Result (AggregateResults cs)) = -1 \<and> Memory (Result (AggregateResults cs)) = -1)"
proof -
  have t: "Time (Result (AggregateResults cs)) = Max (insert (-1) ((\<lambda>c. Time (Result c)) ` set cs))"
    by (simp add: AggregateResults_def aggregate_loop_Time)
  have m: "Memory (Result (AggregateResults cs)) = Max (insert (-1) ((\<lambda>c. Memory (Result c)) ` set cs))"
    by (simp add: AggregateResults_def aggregate_loop_Memory)
  have ge: "\<forall>c \<in> set cs. Time (Result c) \<le> Time (Result (AggregateResults cs))
                  \<and> Memory (Result c) \<le> Memory (Result (AggregateResults cs))"
    unfolding t m by (simp add: Max_ge)
  have et: "(\<exists>c \<in> set cs. -1 \<le> Time (Result c)) \<longrightarrow>
        Time (Result (AggregateResults cs)) = Max ((\<lambda>c. Time (Result c)) ` set cs)"
    unfolding t by (auto intro!: Max_insert_floor)
  have em: "(\<exists>c \<in> set cs. -1 \<le> Memory (Result c)) \<longrightarrow>
        Memory (Result (AggregateResults cs)) = Max ((\<lambda>c. Memory (Result c)) ` set cs)"
    unfolding m by (auto intro!: Max_insert_floor)
  have emp: "cs = [] \<longrightarrow>
        Time (Result (AggregateResults cs)) = -1 \<and> Memory (Result (AggregateResults cs)) = -1"
    by (simp add: AggregateResults_def)
  show ?thesis using t m ge et em emp by blast
qed

theorem AggregateResults_Time_Memory_witness:
  "case_a \<in> set [case_a, case_b] \<and> -1 \<le> Time (Result case_a) \<and> -1 \<le> Memory (Result case_a)
   \<and> Time (Result (AggregateResults [case_a, case_b])) = 3 / 2
   \<and> Memory (Result (AggregateResults [case_a, case_b])) = 4096
   \<and> Max ((\<lambda>c. Time (Result c)) ` set [case_a, case_b]) = 3 / 2
   \<and> Max ((\<lambda>c. Memory (Result c)) ` set [case_a, case_b]) = 4096
   \<and> Time (Result (AggregateResults [])) = -1 \<and> Memory (Result (AggregateResults [])) = -1"
  using AggregateResults_Time_Memory [of "[case_a, case_b]"] AggregateResults_Time_Memory [of "[]"]
  by (simp add: case_a_def case_b_def)

text \<open>
  C7 as it is stated fails for a non-empty list whose values all lie below the
  start value -1: for one case with \<^verbatim>\<open>Time\<close> and \<^verbatim>\<open>Memory\<close> -2 the aggregate keeps
  -1, which is not the maximum -2 over the list.
\<close>

theorem AggregateResults_below_start:
  "[\<lparr>CaseName = [], Status = ''AC'', Result = \<lparr>ReturnCode = 0, Time = -2, Memory = -2, Tle = False, Stderr = []\<rparr>\<rparr>] \<noteq> []
   \<and> Time (Result (AggregateResults
        [\<lparr>CaseName = [], Status = ''AC'', Result = \<lparr>ReturnCode = 0, Time = -2, Memory = -2, Tle = False, Stderr = []\<rparr>\<rparr>])) = -1
   \<and> Max ((\<lambda>c. Time (Result c)) ` set
        [\<lparr>CaseName = [], Status = ''AC'', Result = \<lparr>ReturnCode = 0, Time = -2, Memory = -2, Tle = False, Stderr = []\<rparr>\<rparr>]) = -2
   \<and> Memory (Result (AggregateResults
        [\<lparr>CaseName = [], Status = ''AC'', Result = \<lparr>ReturnCode = 0, Time = -2, Memory = -2, Tle = False, Stderr = []\<rparr>\<rparr>])) = -1
   \<and> Max ((\<lambda>c. Memory (Result c)) ` set
        [\<lparr>CaseName = [], Status = ''AC'', Result = \<lparr>ReturnCode = 0, Time = -2, Memory = -2, Tle = False, Stderr = []\<rparr>\<rparr>]) = -2"
  by (simp add: AggregateResults_def aggregate_step_def)

text \<open>
  C8. For every list of case results that holds a case whose status is not
  \<^verbatim>\<open>AC\<close>, \<^verbatim>\<open>AggregateResults\<close> returns the status of the last such case in the
  order of the list.
\<close>

theorem AggregateResults_Status_last:
  assumes "\<exists>c \<in> set cs. Status c \<noteq> ''AC''"
  shows "Status (AggregateResults cs) = Status (last (filter (\<lambda>c. Status c \<noteq> ''AC'') cs))"
proof -
  have "filter (\<lambda>c. Status c \<noteq> ''AC'') cs \<noteq> []"
    using assms by (simp add: filter_empty_conv)
  then show ?thesis by (simp add: AggregateResults_def aggregate_loop_Status)
qed

theorem AggregateResults_Status_last_witness:
  "\<lparr>CaseName = [], Status = ''WA'', Result = Result_zero\<rparr>
     \<in> set [\<lparr>CaseName = [], Status = ''AC'', Result = Result_zero\<rparr>, \<lparr>CaseName = [], Status = ''WA'', Result = Result_zero\<rparr>, \<lparr>CaseName = [], Status = ''AC'', Result = Result_zero\<rparr>,
            \<lparr>CaseName = [], Status = ''RE'', Result = Result_zero\<rparr>, \<lparr>CaseName = [], Status = ''AC'', Result = Result_zero\<rparr>]
   \<and> Status (\<lparr>CaseName = [], Status = ''WA'', Result = Result_zero\<rparr>) \<noteq> ''AC''
   \<and> Status (AggregateResults
        [\<lparr>CaseName = [], Status = ''AC'', Result = Result_zero\<rparr>, \<lparr>CaseName = [], Status = ''WA'', Result = Result_zero\<rparr>, \<lparr>CaseName = [], Status = ''AC'', Result = Result_zero\<rparr>,
         \<lparr>CaseName = [], Status = ''RE'', Result = Result_zero\<rparr>, \<lparr>CaseName = [], Status = ''AC'', Result = Result_zero\<rparr>]) = ''RE''"
  using AggregateResults_Status_last
    [of "[\<lparr>CaseName = [], Status = ''AC'', Result = Result_zero\<rparr>, \<lparr>CaseName = [], Status = ''WA'', Result = Result_zero\<rparr>, \<lparr>CaseName = [], Status = ''AC'', Result = Result_zero\<rparr>,
          \<lparr>CaseName = [], Status = ''RE'', Result = Result_zero\<rparr>, \<lparr>CaseName = [], Status = ''AC'', Result = Result_zero\<rparr>]"]
  by simp

subsection \<open>SafeRun\<close>

lemma report_sel [simp]: "ReturnCode (report rc t) = rc" "Tle (report rc t) = t"
  by (simp_all add: report_def)

lemma executor_exit_sel [simp]:
  "run (executor_exit_zero r) = Exit_zero"
  "run (executor_exit c r) = Run_error (Err ''exit status'') c"
  "tempfile_err (executor_exit c r) = None" "lookpath_err (executor_exit c r) = None"
  "readfile_err (executor_exit c r) = None" "unmarshal (executor_exit c r) = Inr r"
  by (simp_all add: executor_exit_zero_def executor_exit_def)

lemma SafeRun_exit_zero: "SafeRun (executor_exit_zero (report rc t)) = Return (report rc t, None)"
  by (simp add: SafeRun_def executor_exit_zero_def report_def new_outputStripper_def Bytes_def)

lemma SafeRun_exit_124: "SafeRun (executor_exit 124 (report rc t)) = Return (report rc t, None)"
  by (simp add: SafeRun_def executor_exit_def report_def new_outputStripper_def Bytes_def)

lemma SafeRun_exit_1:
  "SafeRun (executor_exit 1 (report rc t))
     = Return (\<lparr>ReturnCode = -1, Time = -1, Memory = -1, Tle = False, Stderr = []\<rparr>,
               Some (Err ''exit status''))"
  by (simp add: SafeRun_def executor_exit_def new_outputStripper_def)

text \<open>
  C5. In every call of \<^verbatim>\<open>SafeRun\<close> that reaches the executor (the temporary file
  and the lookup of the executor succeeded) and in which \<^verbatim>\<open>cmd.Run()\<close> reports a
  failed run with exit code \<open>c\<close>: when \<open>c\<close> is not 124, \<^verbatim>\<open>SafeRun\<close> returns
  \<^verbatim>\<open>Result{ReturnCode: -1, Time: -1, Memory: -1}\<close> and the error of the run; when
  \<open>c\<close> is 124 and the result file is read and decoded to \<open>r\<close>, \<^verbatim>\<open>SafeRun\<close> returns
  \<open>r\<close> with the captured standard error and no error.
\<close>

theorem SafeRun_executor_exit:
  assumes "tempfile_err x = None" and "lookpath_err x = None" and "run x = Run_error e c"
  shows "(c \<noteq> 124 \<longrightarrow>
            SafeRun x = Return (\<lparr>ReturnCode = -1, Time = -1, Memory = -1, Tle = False, Stderr = []\<rparr>,
                                Some e))
       \<and> (c = 124 \<and> readfile_err x = None \<and> unmarshal x = Inr r \<longrightarrow>
            (\<exists>os. Writes (new_outputStripper 2048) (stderr_writes x) = Some os
                \<and> SafeRun x = Return (r\<lparr>Stderr := Bytes os\<rparr>, None)))"
  using assms Writes_new [of 2048 "stderr_writes x"]
  by (simp add: SafeRun_def)

theorem SafeRun_executor_exit_witness:
  "tempfile_err (executor_exit 1 (report 0 False)) = None
   \<and> lookpath_err (executor_exit 1 (report 0 False)) = None
   \<and> run (executor_exit 1 (report 0 False)) = Run_error (Err ''exit status'') 1
   \<and> (1::int) \<noteq> 124
   \<and> SafeRun (executor_exit 1 (report 0 False))
       = Return (\<lparr>ReturnCode = -1, Time = -1, Memory = -1, Tle = False, Stderr = []\<rparr>,
                 Some (Err ''exit status''))
   \<and> run (executor_exit 124 (report 0 True)) = Run_error (Err ''exit status'') 124
   \<and> readfile_err (executor_exit 124 (report 0 True)) = None
   \<and> unmarshal (executor_exit 124 (report 0 True)) = Inr (report 0 True)
   \<and> SafeRun (executor_exit 124 (report 0 True)) = Return (report 0 True, None)"
  using SafeRun_executor_exit [of "executor_exit 1 (report 0 False)" "Err ''exit status''" 1 "report 0 False"]
        SafeRun_executor_exit [of "executor_exit 124 (report 0 True)" "Err ''exit status''" 124 "report 0 True"]
  by (simp add: SafeRun_exit_1 SafeRun_exit_124)

subsection \<open>Judge.TestCase\<close>

lemma testcase_runs_sel [simp]:
  "submission_run (testcase_runs s c) = s" "checker_run (testcase_runs s c) = c"
  "Fields (testcase_runs s c) w = [w]"
  "create_input_err (testcase_runs s c) = None" "copy_input_err (testcase_runs s c) = None"
  "seek_input_err (testcase_runs s c) = None" "create_expect_err (testcase_runs s c) = None"
  "copy_expect_err (testcase_runs s c) = None" "close_expect_err (testcase_runs s c) = None"
  "create_actual_err (testcase_runs s c) = None"
  by (simp_all add: testcase_runs_def)

lemma files_ready_runs: "files_ready (testcase_runs s c)"
  by (simp add: files_ready_def)

text \<open>
  A run of the executor that \<^verbatim>\<open>SafeRun\<close> accepts ended with exit code 0 or 124.
\<close>

lemma SafeRun_accepts_0_or_124:
  assumes "SafeRun x = Return (r, None)"
  shows "ExitCode (run x) = 0 \<or> ExitCode (run x) = 124"
  using assms
  by (cases "run x") (auto simp: SafeRun_def split: option.splits if_splits sum.splits)

text \<open>
  C1. In every call of \<^verbatim>\<open>TestCase\<close> in which the submission's run completes (the
  files were set up, the exec command is not empty, \<^verbatim>\<open>SafeRun\<close> returns no error,
  \<^verbatim>\<open>tle\<close> is false, the executor exits with 0 and the submission's return code
  is 0) and \<^verbatim>\<open>SafeRun\<close> of the checker returns no error: if the checker's result
  has \<^verbatim>\<open>tle\<close> true the returned status is \<^verbatim>\<open>ITLE\<close>; if it has \<^verbatim>\<open>tle\<close> false and
  the executor exits with 0, the returned status follows the checker's return
  code: 0 gives \<^verbatim>\<open>AC\<close>, 1 \<^verbatim>\<open>WA\<close>, 2 \<^verbatim>\<open>PE\<close>, 3 \<^verbatim>\<open>Fail\<close> and any other value
  \<^verbatim>\<open>Unknown\<close>. The result attached is the submission's, the case name is empty
  and no error is returned.
\<close>

theorem TestCase_checker_verdict:
  assumes "files_ready env" and "Fields env (Exec (lang j)) \<noteq> []"
    and "SafeRun (submission_run env) = Return (result, None)"
    and "\<not> Tle result" and "ExitCode (run (submission_run env)) = 0" and "ReturnCode result = 0"
    and "SafeRun (checker_run env) = Return (checkerResult, None)"
  shows "(Tle checkerResult \<longrightarrow>
            TestCase j env = Return (\<lparr>CaseName = [], Status = ''ITLE'', Result = result\<rparr>, None))
       \<and> (\<not> Tle checkerResult \<and> ExitCode (run (checker_run env)) = 0 \<longrightarrow>
            (ReturnCode checkerResult = 0 \<longrightarrow>
               TestCase j env = Return (\<lparr>CaseName = [], Status = ''AC'', Result = result\<rparr>, None))
          \<and> (ReturnCode checkerResult = 1 \<longrightarrow>
               TestCase j env = Return (\<lparr>CaseName = [], Status = ''WA'', Result = result\<rparr>, None))
          \<and> (ReturnCode checkerResult = 2 \<longrightarrow>
               TestCase j env = Return (\<lparr>CaseName = [], Status = ''PE'', Result = result\<rparr>, None))
          \<and> (ReturnCode checkerResult = 3 \<longrightarrow>
               TestCase j env = Return (\<lparr>CaseName = [], Status = ''Fail'', Result = result\<rparr>, None))
          \<and> (ReturnCode checkerResult \<noteq> 0 \<and> ReturnCode checkerResult \<noteq> 1
               \<and> ReturnCode checkerResult \<noteq> 2 \<and> ReturnCode checkerResult \<noteq> 3 \<longrightarrow>
               TestCase j env = Return (\<lparr>CaseName = [], Status = ''Unknown'', Result = result\<rparr>, None)))"
  using assms by (simp add: TestCase_def files_ready_def)

text \<open>
  The theorem on six calls, one for each status: the checker returns 0, 1, 2, 3
  and 7 with \<^verbatim>\<open>tle\<close> false, and the checker's result file says \<^verbatim>\<open>tle\<close>.
\<close>

theorem TestCase_checker_verdict_witness:
  "files_ready (testcase_runs (executor_exit_zero (report 0 False)) (executor_exit_zero (report 1 False)))
   \<and> Fields (testcase_runs (executor_exit_zero (report 0 False)) (executor_exit_zero (report 1 False)))
        (Exec (lang judge_cpp)) \<noteq> []
   \<and> SafeRun (executor_exit_zero (report 0 False)) = Return (report 0 False, None)
   \<and> Tle (report 0 False) = False \<and> ExitCode (run (executor_exit_zero (report 0 False))) = 0
   \<and> ReturnCode (report 0 False) = 0
   \<and> SafeRun (executor_exit_zero (report 1 False)) = Return (report 1 False, None)
   \<and> Tle (report 1 False) = False \<and> ExitCode (run (executor_exit_zero (report 1 False))) = 0
   \<and> ReturnCode (report 1 False) = 1
   \<and> TestCase judge_cpp
        (testcase_runs (executor_exit_zero (report 0 False)) (executor_exit_zero (report 0 False)))
        = Return (\<lparr>CaseName = [], Status = ''AC'', Result = report 0 False\<rparr>, None)
   \<and> TestCase judge_cpp
        (testcase_runs (executor_exit_zero (report 0 False)) (executor_exit_zero (report 1 False)))
        = Return (\<lparr>CaseName = [], Status = ''WA'', Result = report 0 False\<rparr>, None)
   \<and> TestCase judge_cpp
        (testcase_runs (executor_exit_zero (report 0 False)) (executor_exit_zero (report 2 False)))
        = Return (\<lparr>CaseName = [], Status = ''PE'', Result = report 0 False\<rparr>, None)
   \<and> TestCase judge_cpp
        (testcase_runs (executor_exit_zero (report 0 False)) (executor_exit_zero (report 3 False)))
        = Return (\<lparr>CaseName = [], Status = ''Fail'', Result = report 0 False\<rparr>, None)
   \<and> TestCase judge_cpp
        (testcase_runs (executor_exit_zero (report 0 False)) (executor_exit_zero (report 7 False)))
        = Return (\<lparr>CaseName = [], Status = ''Unknown'', Result = report 0 False\<rparr>, None)
   \<and> SafeRun (executor_exit 124 (report 0 True)) = Return (report 0 True, None)
   \<and> Tle (report 0 True) = True
   \<and> TestCase judge_cpp
        (testcase_runs (executor_exit_zero (report 0 False)) (executor_exit 124 (report 0 True)))
        = Return (\<lparr>CaseName = [], Status = ''ITLE'', Result = report 0 False\<rparr>, None)"
  using TestCase_checker_verdict
          [of "testcase_runs (executor_exit_zero (report 0 False)) (executor_exit_zero (report 0 False))"
              judge_cpp "report 0 False" "report 0 False"]
        TestCase_checker_verdict
          [of "testcase_runs (executor_exit_zero (report 0 False)) (executor_exit_zero (report 1 False))"
              judge_cpp "report 0 False" "report 1 False"]
        TestCase_checker_verdict
          [of "testcase_runs (executor_exit_zero (report 0 False)) (executor_exit_zero (report 2 False))"
              judge_cpp "report 0 False" "report 2 False"]
        TestCase_checker_verdict
          [of "testcase_runs (executor_exit_zero (report 0 False)) (executor_exit_zero (report 3 False))"
              judge_cpp "report 0 False" "report 3 False"]
        TestCase_checker_verdict
          [of "testcase_runs (executor_exit_zero (report 0 False)) (executor_exit_zero (report 7 False))"
              judge_cpp "report 0 False" "report 7 False"]
        TestCase_checker_verdict
          [of "testcase_runs (executor_exit_zero (report 0 False)) (executor_exit 124 (report 0 True))"
              judge_cpp "report 0 False" "report 0 True"]
  by (simp add: files_ready_runs SafeRun_exit_zero SafeRun_exit_124)

text \<open>
  C2, as the source has it. In every call of \<^verbatim>\<open>TestCase\<close> that reaches the
  submission's run and in which \<^verbatim>\<open>SafeRun\<close> for that run returns an error,
  \<^verbatim>\<open>TestCase\<close> returns the zero \<^verbatim>\<open>CaseResult{}\<close>, whose status is the empty string,
  together with that error.
\<close>

theorem TestCase_submission_run_error:
  assumes "files_ready env" and "Fields env (Exec (lang j)) \<noteq> []"
    and "SafeRun (submission_run env) = Return (result, Some e)"
  shows "TestCase j env = Return (CaseResult_zero, Some e) \<and> Status CaseResult_zero = []"
  using assms by (simp add: TestCase_def files_ready_def CaseResult_zero_def)

theorem TestCase_submission_run_error_witness:
  "files_ready (testcase_runs (executor_exit 1 (report 0 False)) (executor_exit_zero (report 0 False)))
   \<and> Fields (testcase_runs (executor_exit 1 (report 0 False)) (executor_exit_zero (report 0 False)))
        (Exec (lang judge_cpp)) \<noteq> []
   \<and> SafeRun (executor_exit 1 (report 0 False))
       = Return (\<lparr>ReturnCode = -1, Time = -1, Memory = -1, Tle = False, Stderr = []\<rparr>,
                 Some (Err ''exit status''))
   \<and> TestCase judge_cpp
        (testcase_runs (executor_exit 1 (report 0 False)) (executor_exit_zero (report 0 False)))
       = Return (CaseResult_zero, Some (Err ''exit status''))"
  using TestCase_submission_run_error
          [of "testcase_runs (executor_exit 1 (report 0 False)) (executor_exit_zero (report 0 False))"
              judge_cpp "\<lparr>ReturnCode = -1, Time = -1, Memory = -1, Tle = False, Stderr = []\<rparr>"
              "Err ''exit status''"]
  by (simp add: files_ready_runs SafeRun_exit_1)

text \<open>
  C2 as it is stated fails: when the executor of the submission's run exits with
  1, \<^verbatim>\<open>SafeRun\<close> returns an error, and \<^verbatim>\<open>TestCase\<close> returns that error with a
  \<^verbatim>\<open>CaseResult\<close> whose status is empty, not \<^verbatim>\<open>Broken\<close>.
\<close>

theorem TestCase_submission_run_error_not_Broken:
  "SafeRun (submission_run
      (testcase_runs (executor_exit 1 (report 0 False)) (executor_exit_zero (report 0 False))))
       = Return (\<lparr>ReturnCode = -1, Time = -1, Memory = -1, Tle = False, Stderr = []\<rparr>,
                 Some (Err ''exit status''))
   \<and> TestCase judge_cpp
        (testcase_runs (executor_exit 1 (report 0 False)) (executor_exit_zero (report 0 False)))
       = Return (CaseResult_zero, Some (Err ''exit status''))
   \<and> Status CaseResult_zero \<noteq> ''Broken''"
  by (simp add: TestCase_def SafeRun_exit_1 CaseResult_zero_def)

text \<open>
  C6, what the source does. In the submission's phase of \<^verbatim>\<open>TestCase\<close>, when
  \<^verbatim>\<open>SafeRun\<close> returns no error and \<^verbatim>\<open>tle\<close> is false, every exit code of the executor
  other than 0 gives the verdict \<^verbatim>\<open>Broken\<close> with the error \<^verbatim>\<open>executor return non
  0, 124 code\<close>; and since \<^verbatim>\<open>SafeRun\<close> accepts only the exit codes 0 and 124, that exit
  code is 124. The test of the source is \<^verbatim>\<open>ExitCode() != 0\<close>; it does not
  exempt 124.
\<close>

theorem TestCase_exit_124_Broken:
  assumes "files_ready env" and "Fields env (Exec (lang j)) \<noteq> []"
    and "SafeRun (submission_run env) = Return (result, None)"
    and "\<not> Tle result" and "ExitCode (run (submission_run env)) \<noteq> 0"
  shows "TestCase j env
           = Return (\<lparr>CaseName = [], Status = ''Broken'', Result = result\<rparr>, Some (Err ''executor return non 0, 124 code''))
       \<and> ExitCode (run (submission_run env)) = 124"
  using assms SafeRun_accepts_0_or_124 [of "submission_run env" result]
  by (simp add: TestCase_def files_ready_def)

text \<open>
  The failing input of C6: the executor of the submission's run exits with 124
  and its result file says \<^verbatim>\<open>tle\<close> false and return code 0.
\<close>

theorem TestCase_exit_124_Broken_witness:
  "files_ready (testcase_runs (executor_exit 124 (report 0 False)) (executor_exit_zero (report 0 False)))
   \<and> Fields (testcase_runs (executor_exit 124 (report 0 False)) (executor_exit_zero (report 0 False)))
        (Exec (lang judge_cpp)) \<noteq> []
   \<and> SafeRun (executor_exit 124 (report 0 False)) = Return (report 0 False, None)
   \<and> Tle (report 0 False) = False
   \<and> ExitCode (run (executor_exit 124 (report 0 False))) = 124
   \<and> TestCase judge_cpp
        (testcase_runs (executor_exit 124 (report 0 False)) (executor_exit_zero (report 0 False)))
       = Return (\<lparr>CaseName = [], Status = ''Broken'', Result = report 0 False\<rparr>, Some (Err ''executor return non 0, 124 code''))"
  using TestCase_exit_124_Broken
          [of "testcase_runs (executor_exit 124 (report 0 False)) (executor_exit_zero (report 0 False))"
              judge_cpp "report 0 False"]
  by (simp add: files_ready_runs SafeRun_exit_124)

text \<open>
  C9. Whenever \<^verbatim>\<open>TestCase\<close> returns a \<^verbatim>\<open>CaseResult\<close> whose status is \<^verbatim>\<open>Broken\<close>, the
  error returned with it is not nil.
\<close>

theorem TestCase_Broken_has_error:
  assumes "TestCase j env = Return (c, err)" and "Status c = ''Broken''"
  shows "err \<noteq> None"
  using assms
  by (auto simp: TestCase_def CaseResult_zero_def
           split: option.splits if_splits outcome.splits prod.splits)

text \<open>
  The theorem on a call whose checker run ends with exit code 124 and \<^verbatim>\<open>tle\<close>
  false.
\<close>

theorem TestCase_Broken_has_error_witness:
  "TestCase judge_cpp
      (testcase_runs (executor_exit_zero (report 0 False)) (executor_exit 124 (report 0 False)))
       = Return (\<lparr>CaseName = [], Status = ''Broken'', Result = report 0 False\<rparr>, Some (Err ''executor return non 0, 124 code''))
   \<and> Status (\<lparr>CaseName = [], Status = ''Broken'', Result = report 0 False\<rparr>) = ''Broken''
   \<and> Some (Err ''executor return non 0, 124 code'') \<noteq> None"
  using TestCase_Broken_has_error
          [of judge_cpp
              "testcase_runs (executor_exit_zero (report 0 False)) (executor_exit 124 (report 0 False))"
              "\<lparr>CaseName = [], Status = ''Broken'', Result = report 0 False\<rparr>" "Some (Err ''executor return non 0, 124 code'')"]
  by (simp add: TestCase_def SafeRun_exit_124 SafeRun_exit_zero)

subsection \<open>The submission lock\<close>











end
